theory Spec2Isabelle
  imports Complex_Main "HOL-Library.Sublist"
begin

section \<open>The sentiment training script\<close>

text \<open>
  The program is \<^verbatim>\<open>train_sentiment_model.py\<close>: a module-level script that calls
  scikit-learn, joblib and (optionally) skl2onnx in a fixed order. What the script itself
  decides is the data, the constants, the order of the calls, which value flows into
  which call, what is printed, and which exception is caught. The libraries are not
  part of the repository: they are a parameter of the model (the record \<open>runtime\<close>),
  every call of theirs may raise, and floating-point values are an abstract type \<open>'f\<close>.
\<close>

subsection \<open>Exceptions\<close>

datatype exn =
  ImportError
  | ModuleNotFoundError
  | IndexError
  | OSError
  | ValueError
  | NotFittedError
  | RuntimeError

text \<open>\<^verbatim>\<open>except ImportError\<close> matches the class and its subclass \<^verbatim>\<open>ModuleNotFoundError\<close>.\<close>

fun isinstance_ImportError :: "exn \<Rightarrow> bool" where
  "isinstance_ImportError ImportError = True"
| "isinstance_ImportError ModuleNotFoundError = True"
| "isinstance_ImportError _ = False"

subsection \<open>The training data (lines 28 to 62)\<close>

definition training_data :: "(string \<times> int) list" where
  "training_data = [
    (''This video is amazing! Great content!'', 1),
    (''Love it! Very helpful tutorial.'', 1),
    (''Excellent work, keep it up!'', 1),
    (''Best video I've seen on this topic'', 1),
    (''Thank you for sharing this!'', 1),
    (''Very informative and well explained'', 1),
    (''Great quality content, subscribed!'', 1),
    (''This helped me a lot, thanks!'', 1),
    (''Perfect! Exactly what I needed'', 1),
    (''Outstanding video, loved it'', 1),
    (''Brilliant explanation, thank you!'', 1),
    (''This is exactly what I was looking for'', 1),
    (''Awesome content, very useful'', 1),
    (''Really appreciate this tutorial'', 1),
    (''Fantastic work, well done!'', 1),
    (''This is terrible, waste of time'', 0),
    (''Boring content, don't recommend'', 0),
    (''Not helpful at all'', 0),
    (''Disliked, very poor quality'', 0),
    (''This video is misleading'', 0),
    (''Awful content, unsubscribed'', 0),
    (''Worst tutorial ever'', 0),
    (''Complete waste of my time'', 0),
    (''Disappointed with this video'', 0),
    (''Horrible, do not watch'', 0),
    (''This is useless information'', 0),
    (''Terrible quality, very bad'', 0),
    (''Not worth watching at all'', 0),
    (''I regret watching this'', 0),
    (''Poorly made and unhelpful'', 0)]"

text \<open>The two columns of the data frame, \<^verbatim>\<open>df['text']\<close> and \<^verbatim>\<open>df['label']\<close>.\<close>

definition df_text :: "string list" where
  "df_text = map fst training_data"

definition df_label :: "int list" where
  "df_label = map snd training_data"

definition test_comments :: "string list" where
  "test_comments = [
    ''This is great!'',
    ''This is terrible!'',
    ''Amazing tutorial, thanks!'',
    ''Waste of time, very bad'']"

subsection \<open>Constants passed to the libraries\<close>

record vectorizer_params =
  max_features :: nat
  min_df :: nat
  max_df :: rat
  ngram_range :: "nat \<times> nat"

record logreg_params =
  reg_C :: rat
  max_iter :: nat
  random_state :: nat

text \<open>The input type given to the converter is plain data: a shape, \<open>None\<close> for a free dimension.\<close>

datatype tensor_type = FloatTensorType "nat option list"

subsection \<open>The world the script acts on\<close>

text \<open>
  Standard output is the list of the strings given to \<^verbatim>\<open>print\<close> (each followed by
  a newline on the terminal); the file system maps a path to what was last written
  there; \<open>vectorizer_calls\<close> is the trace of the method calls on the vectorizer object,
  each with the state of the object it was called on.
\<close>

datatype ('m, 'v) artifact = Pickled_model 'm | Pickled_vectorizer 'v | Raw_bytes string

datatype 'v vcall = Fit_transform 'v "string list" | Transform 'v "string list"

record ('m, 'v) world =
  stdout :: "string list"
  files :: "string \<rightharpoonup> ('m, 'v) artifact"
  vectorizer_calls :: "'v vcall list"

type_synonym ('a, 'm, 'v) io = "('m, 'v) world \<Rightarrow> (exn + 'a) \<times> ('m, 'v) world"

definition io_return :: "'a \<Rightarrow> ('a, 'm, 'v) io" where
  "io_return x w = (Inr x, w)"

text \<open>Sequencing: an exception ends the run of the statements that follow.\<close>

definition io_bind :: "('a, 'm, 'v) io \<Rightarrow> ('a \<Rightarrow> ('b, 'm, 'v) io) \<Rightarrow> ('b, 'm, 'v) io" where
  "io_bind m f w = (case m w of (Inl e, w') \<Rightarrow> (Inl e, w') | (Inr x, w') \<Rightarrow> f x w')"

text \<open>A library call that has no effect on the world: it returns or raises.\<close>

definition io_call :: "exn + 'a \<Rightarrow> ('a, 'm, 'v) io" where
  "io_call r w = (r, w)"

definition print :: "string \<Rightarrow> (unit, 'm, 'v) io" where
  "print s w = (Inr (), w\<lparr>stdout := stdout w @ [s]\<rparr>)"

text \<open>\<^verbatim>\<open>try: body except ImportError: handler\<close>\<close>

definition try_except_ImportError ::
    "(unit, 'm, 'v) io \<Rightarrow> (unit, 'm, 'v) io \<Rightarrow> (unit, 'm, 'v) io" where
  "try_except_ImportError body handler w =
     (case body w of
        (Inl e, w') \<Rightarrow> if isinstance_ImportError e then handler w' else (Inl e, w')
      | (Inr x, w') \<Rightarrow> (Inr x, w'))"

subsection \<open>Python built-ins the script uses\<close>

definition digit_char :: "nat \<Rightarrow> char" where
  "digit_char n = ''0123456789'' ! n"

function str_nat :: "nat \<Rightarrow> string" where
  "str_nat n = (if n < 10 then [digit_char n] else str_nat (n div 10) @ [digit_char (n mod 10)])"
  by pat_completeness auto
termination
  by (relation "measure (\<lambda>n. n)") auto

declare str_nat.simps [simp del]

text \<open>\<^verbatim>\<open>str\<close> of a pair of sizes, as the f-string prints a shape: \<^verbatim>\<open>(24, 57)\<close>.\<close>

definition str_shape :: "nat \<times> nat \<Rightarrow> string" where
  "str_shape s = ''('' @ str_nat (fst s) @ '', '' @ str_nat (snd s) @ '')''"

text \<open>
  \<^verbatim>\<open>xs[i]\<close> on a list or an array: an index from \<open>0\<close> counts from the front, one
  from \<open>-1\<close> down to \<open>-len(xs)\<close> from the back, any other raises.
\<close>

definition py_index :: "'a list \<Rightarrow> int \<Rightarrow> exn + 'a" where
  "py_index xs i =
     (if 0 \<le> i \<and> i < int (length xs) then Inr (xs ! nat i)
      else if i < 0 \<and> - int (length xs) \<le> i then Inr (xs ! nat (int (length xs) + i))
      else Inl IndexError)"

subsection \<open>The libraries and the interpreter, as a parameter\<close>

text \<open>
  One field for every library function, method and formatting operation the script
  calls. \<open>'v\<close> is the vectorizer object, \<open>'x\<close> a feature matrix, \<open>'m\<close> the classifier
  object, \<open>'f\<close> a floating-point number and \<open>'o\<close> an ONNX model. A call returns
  \<open>Inr\<close> its result or \<open>Inl\<close> the exception it raises; an operation on the file
  system or the import machinery gives \<open>Some\<close> exception or \<open>None\<close> when it succeeds.
  \<open>fit_transform\<close> returns the fitted object next to the matrix, since it is the one
  method of the vectorizer that changes the object; \<open>model_fit\<close> likewise.
\<close>

record ('v, 'x, 'm, 'f, 'o) runtime =
  train_test_split ::
    "string list \<Rightarrow> int list \<Rightarrow> rat \<Rightarrow> nat \<Rightarrow>
       exn + (string list \<times> string list \<times> int list \<times> int list)"
  TfidfVectorizer :: "vectorizer_params \<Rightarrow> exn + 'v"
  fit_transform :: "'v \<Rightarrow> string list \<Rightarrow> exn + ('v \<times> 'x)"
  transform :: "'v \<Rightarrow> string list \<Rightarrow> exn + 'x"
  matrix_shape :: "'x \<Rightarrow> nat \<times> nat"
  LogisticRegression :: "logreg_params \<Rightarrow> exn + 'm"
  model_fit :: "'m \<Rightarrow> 'x \<Rightarrow> int list \<Rightarrow> exn + 'm"
  predict :: "'m \<Rightarrow> 'x \<Rightarrow> exn + int list"
  predict_proba :: "'m \<Rightarrow> 'x \<Rightarrow> exn + 'f list list"
  accuracy_score :: "int list \<Rightarrow> int list \<Rightarrow> exn + 'f"
  classification_report :: "int list \<Rightarrow> int list \<Rightarrow> string list \<Rightarrow> exn + string"
  confusion_matrix :: "int list \<Rightarrow> int list \<Rightarrow> exn + nat list list"
  str_array :: "nat list list \<Rightarrow> string"
  joblib_dump :: "('m, 'v) artifact \<Rightarrow> string \<Rightarrow> exn option"
  float_mul :: "'f \<Rightarrow> int \<Rightarrow> 'f"
  format_1f :: "'f \<Rightarrow> string"
  format_2pct :: "'f \<Rightarrow> string"
  import_from :: "string \<Rightarrow> string \<Rightarrow> exn option"
  convert_sklearn :: "'m \<Rightarrow> (string \<times> tensor_type) list \<Rightarrow> exn + 'o"
  SerializeToString :: "'o \<Rightarrow> exn + string"
  open_wb :: "string \<Rightarrow> exn option"
  file_write :: "string \<Rightarrow> string \<Rightarrow> exn option"

subsection \<open>Effects of single statements\<close>

definition io_check :: "exn option \<Rightarrow> (unit, 'm, 'v) io" where
  "io_check r w = (case r of Some e \<Rightarrow> (Inl e, w) | None \<Rightarrow> (Inr (), w))"

definition store :: "string \<Rightarrow> ('m, 'v) artifact \<Rightarrow> (unit, 'm, 'v) io" where
  "store path a w = (Inr (), w\<lparr>files := (files w)(path \<mapsto> a)\<rparr>)"

definition record_call :: "'v vcall \<Rightarrow> (unit, 'm, 'v) io" where
  "record_call c w = (Inr (), w\<lparr>vectorizer_calls := vectorizer_calls w @ [c]\<rparr>)"

text \<open>\<^verbatim>\<open>joblib.dump(obj, path)\<close>: the file holds the object once the call has returned.\<close>

definition dump ::
    "('v, 'x, 'm, 'f, 'o) runtime \<Rightarrow> ('m, 'v) artifact \<Rightarrow> string \<Rightarrow> (unit, 'm, 'v) io" where
  "dump env obj path = io_bind (io_check (joblib_dump env obj path)) (\<lambda>_. store path obj)"

text \<open>\<^verbatim>\<open>vectorizer.fit_transform(X)\<close> and \<^verbatim>\<open>vectorizer.transform(X)\<close>, each entered in the trace.\<close>

definition vectorizer_fit_transform ::
    "('v, 'x, 'm, 'f, 'o) runtime \<Rightarrow> 'v \<Rightarrow> string list \<Rightarrow> ('v \<times> 'x, 'm, 'v) io" where
  "vectorizer_fit_transform env v X =
     io_bind (record_call (Fit_transform v X)) (\<lambda>_. io_call (fit_transform env v X))"

definition vectorizer_transform ::
    "('v, 'x, 'm, 'f, 'o) runtime \<Rightarrow> 'v \<Rightarrow> string list \<Rightarrow> ('x, 'm, 'v) io" where
  "vectorizer_transform env v X =
     io_bind (record_call (Transform v X)) (\<lambda>_. io_call (transform env v X))"

text \<open>A \<^verbatim>\<open>for\<close> loop over a list.\<close>

primrec for_each :: "('a \<Rightarrow> (unit, 'm, 'v) io) \<Rightarrow> 'a list \<Rightarrow> (unit, 'm, 'v) io" where
  "for_each body [] = io_return ()"
| "for_each body (x # xs) = io_bind (body x) (\<lambda>_. for_each body xs)"

subsection \<open>The script, statement by statement\<close>

definition tfidf_params :: vectorizer_params where
  "tfidf_params = \<lparr>max_features = 1000, min_df = 1, max_df = 8 / 10, ngram_range = (1, 2)\<rparr>"

definition lr_params :: logreg_params where
  "lr_params = \<lparr>reg_C = 1, max_iter = 1000, random_state = 42\<rparr>"

text \<open>Lines 64 to 73: the data frame and the split.\<close>

definition split_data ::
    "('v, 'x, 'm, 'f, 'o) runtime \<Rightarrow>
       (string list \<times> string list \<times> int list \<times> int list, 'm, 'v) io" where
  "split_data env =
     io_bind (io_call (train_test_split env df_text df_label (2 / 10) 42))
       (\<lambda>(X_train, X_test, y_train, y_test).
     io_bind (print (''Training samples: '' @ str_nat (length X_train))) (\<lambda>_.
     io_bind (print (''Test samples: '' @ str_nat (length X_test))) (\<lambda>_.
     io_return (X_train, X_test, y_train, y_test))))"

text \<open>Lines 75 to 86: the vectorizer is built, fitted on \<open>X_train\<close>, applied to \<open>X_test\<close>.\<close>

definition extract_features ::
    "('v, 'x, 'm, 'f, 'o) runtime \<Rightarrow> string list \<Rightarrow> string list \<Rightarrow>
       ('v \<times> 'x \<times> 'x, 'm, 'v) io" where
  "extract_features env X_train X_test =
     io_bind (io_call (TfidfVectorizer env tfidf_params)) (\<lambda>vectorizer0.
     io_bind (vectorizer_fit_transform env vectorizer0 X_train)
       (\<lambda>(vectorizer, X_train_tfidf).
     io_bind (vectorizer_transform env vectorizer X_test) (\<lambda>X_test_tfidf.
     io_bind (print (''\<newline>Feature vector shape: ''
                @ str_shape (matrix_shape env X_train_tfidf))) (\<lambda>_.
     io_return (vectorizer, X_train_tfidf, X_test_tfidf)))))"

text \<open>Lines 88 to 95: the classifier.\<close>

definition train_model ::
    "('v, 'x, 'm, 'f, 'o) runtime \<Rightarrow> 'x \<Rightarrow> int list \<Rightarrow> ('m, 'm, 'v) io" where
  "train_model env X_train_tfidf y_train =
     io_bind (io_call (LogisticRegression env lr_params)) (\<lambda>model0.
     io_call (model_fit env model0 X_train_tfidf y_train))"

text \<open>Lines 97 to 106: accuracy, report and confusion matrix of the test part.\<close>

definition evaluate ::
    "('v, 'x, 'm, 'f, 'o) runtime \<Rightarrow> 'm \<Rightarrow> 'x \<Rightarrow> int list \<Rightarrow> (unit, 'm, 'v) io" where
  "evaluate env model X_test_tfidf y_test =
     io_bind (io_call (predict env model X_test_tfidf)) (\<lambda>y_pred.
     io_bind (io_call (accuracy_score env y_test y_pred)) (\<lambda>accuracy.
     io_bind (print (''\<newline>Model Accuracy: '' @ format_2pct env accuracy)) (\<lambda>_.
     io_bind (print ''\<newline>Classification Report:'') (\<lambda>_.
     io_bind (io_call (classification_report env y_test y_pred [''Negative'', ''Positive'']))
       (\<lambda>report.
     io_bind (print report) (\<lambda>_.
     io_bind (print ''\<newline>Confusion Matrix:'') (\<lambda>_.
     io_bind (io_call (confusion_matrix env y_test y_pred)) (\<lambda>cm.
     print (str_array env cm)))))))))"

text \<open>
  Lines 64 to 106 together. The value is what the later statements read: the
  vectorizer, the training matrix and the classifier.
\<close>

definition fit_and_evaluate ::
    "('v, 'x, 'm, 'f, 'o) runtime \<Rightarrow> ('v \<times> 'x \<times> 'm, 'm, 'v) io" where
  "fit_and_evaluate env =
     io_bind (split_data env) (\<lambda>(X_train, X_test, y_train, y_test).
     io_bind (extract_features env X_train X_test)
       (\<lambda>(vectorizer, X_train_tfidf, X_test_tfidf).
     io_bind (train_model env X_train_tfidf y_train) (\<lambda>model.
     io_bind (evaluate env model X_test_tfidf y_test) (\<lambda>_.
     io_return (vectorizer, X_train_tfidf, model)))))"

text \<open>Lines 108 to 113: the two pickle files.\<close>

definition save_model ::
    "('v, 'x, 'm, 'f, 'o) runtime \<Rightarrow> 'm \<Rightarrow> 'v \<Rightarrow> (unit, 'm, 'v) io" where
  "save_model env model vectorizer =
     io_bind (dump env (Pickled_model model) ''sentiment_model.pkl'') (\<lambda>_.
     io_bind (dump env (Pickled_vectorizer vectorizer) ''sentiment_vectorizer.pkl'') (\<lambda>_.
     io_bind (print ''\<newline>Model saved to sentiment_model.pkl'') (\<lambda>_.
     print ''Vectorizer saved to sentiment_vectorizer.pkl'')))"

text \<open>Lines 125 to 133: the body of the loop over \<open>test_comments\<close>.\<close>

definition comment_line :: "string \<Rightarrow> string" where
  "comment_line comment = ''Comment: '' @ [CHR 0x27] @ comment @ [CHR 0x27]"

definition sentiment_line :: "string \<Rightarrow> string \<Rightarrow> string" where
  "sentiment_line sentiment percent =
     ''  Sentiment: '' @ sentiment @ '' (Confidence: '' @ percent @ ''%)\<newline>''"

definition predict_comment ::
    "('v, 'x, 'm, 'f, 'o) runtime \<Rightarrow> 'v \<Rightarrow> 'm \<Rightarrow> string \<Rightarrow> (unit, 'm, 'v) io" where
  "predict_comment env vectorizer model comment =
     io_bind (vectorizer_transform env vectorizer [comment]) (\<lambda>features.
     io_bind (io_call (predict env model features)) (\<lambda>predictions.
     io_bind (io_call (py_index predictions 0)) (\<lambda>prediction.
     io_bind (io_call (predict_proba env model features)) (\<lambda>probabilities.
     io_bind (io_call (py_index probabilities 0)) (\<lambda>probability.
     let sentiment = (if prediction = 1 then ''Positive'' else ''Negative'') in
     io_bind (io_call (py_index probability prediction)) (\<lambda>p.
     let confidence = float_mul env p 100 in
     io_bind (print (comment_line comment)) (\<lambda>_.
     print (sentiment_line sentiment (format_1f env confidence)))))))))"

definition test_predictions ::
    "('v, 'x, 'm, 'f, 'o) runtime \<Rightarrow> 'v \<Rightarrow> 'm \<Rightarrow> (unit, 'm, 'v) io" where
  "test_predictions env vectorizer model =
     io_bind (print ''\<newline>--- Test Predictions ---'') (\<lambda>_.
     for_each (predict_comment env vectorizer model) test_comments)"

text \<open>Lines 136 to 154: the export, inside \<^verbatim>\<open>try\<close>, and its handler.\<close>

definition export_body ::
    "('v, 'x, 'm, 'f, 'o) runtime \<Rightarrow> 'm \<Rightarrow> 'x \<Rightarrow> (unit, 'm, 'v) io" where
  "export_body env model X_train_tfidf =
     io_bind (io_check (import_from env ''skl2onnx'' ''convert_sklearn'')) (\<lambda>_.
     io_bind (io_check (import_from env ''skl2onnx.common.data_types'' ''FloatTensorType''))
       (\<lambda>_.
     let initial_type =
       [(''float_input'', FloatTensorType [None, Some (snd (matrix_shape env X_train_tfidf))])]
     in
     io_bind (io_call (convert_sklearn env model initial_type)) (\<lambda>onnx_model.
     io_bind (io_check (open_wb env ''sentiment_model.onnx'')) (\<lambda>_.
     io_bind (store ''sentiment_model.onnx'' (Raw_bytes [])) (\<lambda>_.
     io_bind (io_call (SerializeToString env onnx_model)) (\<lambda>bytes.
     io_bind (io_check (file_write env ''sentiment_model.onnx'' bytes)) (\<lambda>_.
     io_bind (store ''sentiment_model.onnx'' (Raw_bytes bytes)) (\<lambda>_.
     io_bind (print ''ONNX model saved to sentiment_model.onnx'') (\<lambda>_.
     print ''This model can be used with ML.NET TensorFlow integration'')))))))))"

definition export_fallback :: "(unit, 'm, 'v) io" where
  "export_fallback =
     io_bind (print ''\<newline>Note: skl2onnx not installed. To export ONNX model, run:'') (\<lambda>_.
     print ''pip install skl2onnx onnxmltools'')"

definition export_onnx ::
    "('v, 'x, 'm, 'f, 'o) runtime \<Rightarrow> 'm \<Rightarrow> 'x \<Rightarrow> (unit, 'm, 'v) io" where
  "export_onnx env model X_train_tfidf =
     try_except_ImportError (export_body env model X_train_tfidf) export_fallback"

text \<open>The whole script. \<open>before_export\<close> is the part above the \<^verbatim>\<open>try\<close> statement.\<close>

definition before_export ::
    "('v, 'x, 'm, 'f, 'o) runtime \<Rightarrow> ('v \<times> 'x \<times> 'm, 'm, 'v) io" where
  "before_export env =
     io_bind (fit_and_evaluate env) (\<lambda>(vectorizer, X_train_tfidf, model).
     io_bind (save_model env model vectorizer) (\<lambda>_.
     io_bind (test_predictions env vectorizer model) (\<lambda>_.
     io_return (vectorizer, X_train_tfidf, model))))"

definition main :: "('v, 'x, 'm, 'f, 'o) runtime \<Rightarrow> (unit, 'm, 'v) io" where
  "main env =
     io_bind (before_export env) (\<lambda>(vectorizer, X_train_tfidf, model).
     export_onnx env model X_train_tfidf)"

text \<open>The world at the start of a run: nothing printed, no file, no call made.\<close>

definition initial_world :: "('m, 'v) world" where
  "initial_world = \<lparr>stdout = [], files = Map.empty, vectorizer_calls = []\<rparr>"

text \<open>What the handler of the \<^verbatim>\<open>try\<close> statement prints.\<close>

definition fallback_message :: "string list" where
  "fallback_message =
     [''\<newline>Note: skl2onnx not installed. To export ONNX model, run:'',
      ''pip install skl2onnx onnxmltools'']"

text \<open>
  What one round of the loop over \<open>test_comments\<close> prints, in terms of what the
  library calls of that round returned.
\<close>

definition demo_report ::
    "('v, 'x, 'm, 'f, 'o) runtime \<Rightarrow> 'v \<Rightarrow> 'm \<Rightarrow> string \<Rightarrow> string list \<Rightarrow> bool" where
  "demo_report env vectorizer model comment printed \<longleftrightarrow>
     (\<exists>features predictions prediction probabilities probability p.
        transform env vectorizer [comment] = Inr features
        \<and> predict env model features = Inr predictions
        \<and> py_index predictions 0 = Inr prediction
        \<and> predict_proba env model features = Inr probabilities
        \<and> py_index probabilities 0 = Inr probability
        \<and> py_index probability prediction = Inr p
        \<and> printed =
            [comment_line comment,
             sentiment_line (if prediction = 1 then ''Positive'' else ''Negative'')
               (format_1f env (float_mul env p 100))])"

text \<open>
  The line as the specification words it, for comparison with \<open>sentiment_line\<close>:
  \<^verbatim>\<open>"{sentiment label} (confidence {percent}%)"\<close>.
\<close>

definition spec_demo_line :: "string \<Rightarrow> string \<Rightarrow> string" where
  "spec_demo_line label percent = label @ '' (confidence '' @ percent @ ''%)''"

text \<open>
  The calls on the vectorizer that a run makes when it gets through the first \<open>k\<close>
  rounds of the loop over \<open>test_comments\<close>: \<open>v0\<close> is the object as constructed,
  \<open>v\<close> the object as \<^verbatim>\<open>fit_transform\<close> left it.
\<close>

definition expected_calls ::
    "'v \<Rightarrow> 'v \<Rightarrow> string list \<Rightarrow> string list \<Rightarrow> nat \<Rightarrow> 'v vcall list" where
  "expected_calls v0 v X_train X_test k =
     Fit_transform v0 X_train # Transform v X_test
       # map (\<lambda>comment. Transform v [comment]) (take k test_comments)"

subsection \<open>Library functions described by the specification\<close>

text \<open>
  Modelled from the spec: \<^verbatim>\<open>accuracy_score\<close> is a function of scikit-learn
  (\<^verbatim>\<open>sklearn.metrics\<close>), which the repository imports and does not contain. Section
  4.4: accuracy = (number of correct predictions) / (number of test examples). The
  value is an exact fraction here.
\<close>

definition spec_accuracy_score :: "int list \<Rightarrow> int list \<Rightarrow> rat" where
  "spec_accuracy_score y_true y_pred =
     of_nat (length (filter (\<lambda>(t, p). t = p) (zip y_true y_pred))) / of_nat (length y_true)"

text \<open>
  Modelled from the spec: \<^verbatim>\<open>confusion_matrix\<close> is a function of scikit-learn
  (\<^verbatim>\<open>sklearn.metrics\<close>), which the repository imports and does not contain. Section
  4.4: a 2 by 2 integer grid, rows = true class, columns = predicted class, in the fixed
  class order [negative, positive]; section 3: negative = 0, positive = 1.
  \<open>confusion_count\<close> is one cell of the grid.
\<close>

definition confusion_count :: "int list \<Rightarrow> int list \<Rightarrow> int \<Rightarrow> int \<Rightarrow> nat" where
  "confusion_count y_true y_pred t p =
     length (filter (\<lambda>(a, b). a = t \<and> b = p) (zip y_true y_pred))"

definition spec_confusion_matrix :: "int list \<Rightarrow> int list \<Rightarrow> nat list list" where
  "spec_confusion_matrix y_true y_pred =
     map (\<lambda>t. map (\<lambda>p. confusion_count y_true y_pred t p) [0, 1]) [0, 1]"

text \<open>
  Modelled from the spec: \<^verbatim>\<open>train_test_split\<close> is a function of scikit-learn
  (\<^verbatim>\<open>sklearn.model_selection\<close>), which the repository imports and does not contain.
  Sections 3 and 4.1: the rows are partitioned into a training and a test part, the test
  part holding the proportion \<open>test_size\<close> of them, rounded; the partition is random but
  fixed by the seed. The claim about the split gives the rounding: the test count is the
  ceiling of \<open>test_size\<close> times the number of rows. The order in which the seed shuffles
  the row numbers is the parameter \<open>order\<close>: its first rows are the test part, the rest
  the training part.
\<close>

definition spec_n_test :: "nat \<Rightarrow> rat \<Rightarrow> nat" where
  "spec_n_test n test_size = nat \<lceil>of_nat n * test_size\<rceil>"

definition spec_train_test_split ::
    "nat list \<Rightarrow> 'a list \<Rightarrow> 'b list \<Rightarrow> rat \<Rightarrow> 'a list \<times> 'a list \<times> 'b list \<times> 'b list" where
  "spec_train_test_split order X y test_size =
     (let k = spec_n_test (length X) test_size;
          test_rows = take k order;
          train_rows = drop k order
      in (map (nth X) train_rows, map (nth X) test_rows,
          map (nth y) train_rows, map (nth y) test_rows))"

text \<open>An order of the thirty row numbers, to run the split on.\<close>

definition sample_order :: "nat list" where
  "sample_order =
     [27, 15, 23, 17, 8, 9, 28, 24, 12, 0, 4, 16, 5, 13, 11,
      22, 1, 2, 25, 3, 21, 26, 18, 29, 20, 7, 10, 14, 19, 6]"

subsection \<open>A small runtime to run the script on\<close>

text \<open>
  A stand-in for the libraries, simple enough to evaluate: the split takes the first six
  rows as the test part, the vectorizer remembers the texts it was fitted on, a matrix is
  the list of its texts, the classifier calls a text positive when it is shorter than
  twenty characters, and a floating-point number is a count of thousandths. The outcome
  of the import of the converter, of the conversion and of \<^verbatim>\<open>joblib.dump\<close> are
  parameters.
\<close>

definition format_milli :: "int \<Rightarrow> string" where
  "format_milli f = str_nat (nat (f div 1000)) @ ''.'' @ str_nat (nat (f div 100 mod 10))"

definition sample_runtime ::
    "exn option \<Rightarrow> exn + unit \<Rightarrow> exn option \<Rightarrow>
       (string list, string list, unit, int, unit) runtime" where
  "sample_runtime import_outcome convert_outcome dump_outcome = \<lparr>
     train_test_split = (\<lambda>X y test_size seed. Inr (drop 6 X, take 6 X, drop 6 y, take 6 y)),
     TfidfVectorizer = (\<lambda>params. Inr []),
     fit_transform = (\<lambda>v X. Inr (X, X)),
     transform = (\<lambda>v X. Inr X),
     matrix_shape = (\<lambda>X. (length X, 0)),
     LogisticRegression = (\<lambda>params. Inr ()),
     model_fit = (\<lambda>m X y. Inr ()),
     predict = (\<lambda>m X. Inr (map (\<lambda>row. if length row < 20 then 1 else 0) X)),
     predict_proba =
       (\<lambda>m X. Inr (map (\<lambda>row. if length row < 20 then [250, 750] else [750, 250]) X)),
     accuracy_score = (\<lambda>y_true y_pred. Inr 500),
     classification_report = (\<lambda>y_true y_pred names. Inr ''report''),
     confusion_matrix = (\<lambda>y_true y_pred. Inr [[0, 0], [3, 3]]),
     str_array = (\<lambda>cm. ''matrix''),
     joblib_dump = (\<lambda>obj path. dump_outcome),
     float_mul = (\<lambda>f i. f * i),
     format_1f = format_milli,
     format_2pct = (\<lambda>f. format_milli (f * 100) @ ''0%''),
     import_from = (\<lambda>module name. import_outcome),
     convert_sklearn = (\<lambda>m initial_types. convert_outcome),
     SerializeToString = (\<lambda>onnx. Inr ''onnx''),
     open_wb = (\<lambda>path. None),
     file_write = (\<lambda>path bytes. None)\<rparr>"

section \<open>Reasoning about runs\<close>

subsection \<open>Statements that leave a part of the world alone\<close>

definition keeps :: "(('m, 'v) world \<Rightarrow> 'b) \<Rightarrow> ('a, 'm, 'v) io \<Rightarrow> bool" where
  "keeps g m \<longleftrightarrow> (\<forall>w. g (snd (m w)) = g w)"

lemma keepsD: "keeps g m \<Longrightarrow> m w = (r, w') \<Longrightarrow> g w' = g w"
  by (auto simp: keeps_def dest: spec [where x = w])

lemma keeps_bind: "keeps g m \<Longrightarrow> (\<And>x. keeps g (f x)) \<Longrightarrow> keeps g (io_bind m f)"
  by (auto simp: keeps_def io_bind_def split: prod.splits sum.splits)
    (metis snd_conv)+

lemma keeps_call: "keeps g (io_call r)"
  by (simp add: keeps_def io_call_def)

lemma keeps_check: "keeps g (io_check r)"
  by (simp add: keeps_def io_check_def split: option.splits)

lemma keeps_return: "keeps g (io_return x)"
  by (simp add: keeps_def io_return_def)

lemma keeps_case_prod: "(\<And>a b. keeps g (f a b)) \<Longrightarrow> keeps g (case_prod f p)"
  by (cases p) simp

lemma keeps_Let: "keeps g (f x) \<Longrightarrow> keeps g (Let x f)"
  by simp

lemma keeps_for_each: "(\<And>x. keeps g (body x)) \<Longrightarrow> keeps g (for_each body xs)"
  by (induction xs) (simp_all add: keeps_return keeps_bind)

lemma keeps_try:
  "keeps g body \<Longrightarrow> keeps g handler \<Longrightarrow> keeps g (try_except_ImportError body handler)"
  by (auto simp: keeps_def try_except_ImportError_def split: prod.splits sum.splits)
    (metis snd_conv)+

lemma keeps_print_files: "keeps files (print s)"
  by (simp add: keeps_def print_def)

lemma keeps_print_calls: "keeps vectorizer_calls (print s)"
  by (simp add: keeps_def print_def)

lemma keeps_record_call_files: "keeps files (record_call c)"
  by (simp add: keeps_def record_call_def)

lemma keeps_record_call_stdout: "keeps stdout (record_call c)"
  by (simp add: keeps_def record_call_def)

lemma keeps_store_calls: "keeps vectorizer_calls (store p a)"
  by (simp add: keeps_def store_def)

lemma keeps_store_stdout: "keeps stdout (store p a)"
  by (simp add: keeps_def store_def)

lemmas keeps_intros = keeps_bind keeps_call keeps_check keeps_return keeps_case_prod
  keeps_Let keeps_for_each keeps_try keeps_print_files keeps_print_calls
  keeps_record_call_files keeps_record_call_stdout keeps_store_calls keeps_store_stdout

subsection \<open>Single steps of a run\<close>

lemma io_bind_call:
  "io_bind (io_call r) f w = (case r of Inl e \<Rightarrow> (Inl e, w) | Inr x \<Rightarrow> f x w)"
  by (simp add: io_bind_def io_call_def split: sum.splits)

lemma io_bind_check:
  "io_bind (io_check r) f w = (case r of Some e \<Rightarrow> (Inl e, w) | None \<Rightarrow> f () w)"
  by (simp add: io_bind_def io_check_def split: option.splits)

lemma io_bind_print: "io_bind (print s) f w = f () (w\<lparr>stdout := stdout w @ [s]\<rparr>)"
  by (simp add: io_bind_def print_def)

lemma io_bind_store: "io_bind (store p a) f w = f () (w\<lparr>files := (files w)(p \<mapsto> a)\<rparr>)"
  by (simp add: io_bind_def store_def)

lemma io_bind_record_call:
  "io_bind (record_call c) f w = f () (w\<lparr>vectorizer_calls := vectorizer_calls w @ [c]\<rparr>)"
  by (simp add: io_bind_def record_call_def)

lemma io_bind_assoc: "io_bind (io_bind m f) g = io_bind m (\<lambda>x. io_bind (f x) g)"
  by (rule ext) (simp add: io_bind_def split: prod.splits sum.splits)

lemma io_bind_cases:
  assumes "io_bind m f w = (r, w')"
  obtains (raised) e where "m w = (Inl e, w')" and "r = Inl e"
    | (returned) x w1 where "m w = (Inr x, w1)" and "f x w1 = (r, w')"
  using assms by (auto simp: io_bind_def split: prod.splits sum.splits)

text \<open>Unfolding the effects and the sample runtime, for evaluation.\<close>

lemmas io_defs = io_bind_def io_call_def io_check_def io_return_def print_def store_def
  record_call_def

lemmas sample_defs = sample_runtime_def format_milli_def initial_world_def test_comments_def
  df_text_def df_label_def training_data_def tfidf_params_def lr_params_def py_index_def
  str_shape_def str_nat.simps digit_char_def comment_line_def sentiment_line_def

lemma sample_before_export:
  "fst (before_export (sample_runtime import_outcome convert_outcome None) initial_world)
     = Inr (drop 6 df_text, drop 6 df_text, ())"
  by (simp add: before_export_def fit_and_evaluate_def split_data_def
      extract_features_def train_model_def evaluate_def save_model_def dump_def
      test_predictions_def predict_comment_def vectorizer_fit_transform_def
      vectorizer_transform_def io_defs sample_defs)

section \<open>The export step\<close>

lemma fit_and_evaluate_files: "keeps files (fit_and_evaluate env)"
  unfolding fit_and_evaluate_def split_data_def extract_features_def train_model_def
    evaluate_def vectorizer_fit_transform_def vectorizer_transform_def
  by (intro keeps_intros)

lemma test_predictions_files: "keeps files (test_predictions env v m)"
  unfolding test_predictions_def predict_comment_def vectorizer_transform_def
  by (intro keeps_intros)

lemma save_model_files:
  assumes "save_model env m v w = (Inr u, w')"
  shows "files w' = (files w)(''sentiment_model.pkl'' \<mapsto> Pickled_model m,
                          ''sentiment_vectorizer.pkl'' \<mapsto> Pickled_vectorizer v)"
  using assms unfolding save_model_def dump_def
  by (auto simp: io_bind_assoc io_bind_check io_bind_store io_bind_print print_def
      split: option.splits)

lemma before_export_Inr:
  assumes "before_export env w0 = (Inr (v, X, m), w1)"
  obtains wa wb where "fit_and_evaluate env w0 = (Inr (v, X, m), wa)"
    and "save_model env m v wa = (Inr (), wb)"
    and "test_predictions env v m wb = (Inr (), w1)"
  using assms unfolding before_export_def
  by (auto simp: io_bind_def io_return_def split: prod.splits sum.splits)

lemma before_export_files:
  assumes "before_export env w0 = (Inr (v, X, m), w1)"
  shows "files w1 ''sentiment_model.pkl'' = Some (Pickled_model m)
       \<and> files w1 ''sentiment_vectorizer.pkl'' = Some (Pickled_vectorizer v)"
proof -
  from assms obtain wa wb where
    b: "save_model env m v wa = (Inr (), wb)" and
    c: "test_predictions env v m wb = (Inr (), w1)"
    by (rule before_export_Inr)
  from keepsD [OF test_predictions_files c] save_model_files [OF b] show ?thesis by simp
qed

lemma export_fallback_run:
  "export_fallback w = (Inr (), w\<lparr>stdout := stdout w @ fallback_message\<rparr>)"
  by (simp add: export_fallback_def fallback_message_def io_bind_print print_def)

lemma export_body_import_fails:
  "import_from env ''skl2onnx'' ''convert_sklearn'' = Some e \<Longrightarrow>
     export_body env m X w = (Inl e, w)"
  by (simp add: export_body_def io_bind_check)

lemma main_after_before_export:
  "before_export env w0 = (Inr (v, X, m), w1) \<Longrightarrow> main env w0 = export_onnx env m X w1"
  by (simp add: main_def io_bind_def)

lemma main_raised_before_export:
  "before_export env w0 = (Inl e, w1) \<Longrightarrow> main env w0 = (Inl e, w1)"
  by (simp add: main_def io_bind_def)

lemma export_body_raises:
  assumes "export_body env m X w1 = (Inl e, w2)"
  shows "stdout w2 = stdout w1
    \<and> (\<forall>path. path \<noteq> ''sentiment_model.onnx'' \<longrightarrow> files w2 path = files w1 path)"
  using assms unfolding export_body_def
  by (auto simp: io_bind_check io_bind_call io_bind_store io_bind_print print_def Let_def
      split: option.splits sum.splits)

text \<open>
  Claim C2. When the run reaches the \<^verbatim>\<open>try\<close> statement, the two pickle files hold
  the fitted classifier and the fitted vectorizer. When the import of the converter
  raises \<^verbatim>\<open>ImportError\<close> (or its subclass), the run ends without an exception, having
  printed the two lines of the fallback message and nothing else, and having written no
  further file. The same holds wherever in the \<^verbatim>\<open>try\<close> body an exception of that class
  is raised (the second import, the conversion): it is caught, the body has printed
  nothing, the fallback message follows, the run ends without an exception and the two
  pickle files are as they were. An exception of the body that is not an
  \<^verbatim>\<open>ImportError\<close> ends the run with that exception; a body that returns ends the run
  without one; an exception raised before the export ends the run with that exception.
\<close>

theorem export_degrades_gracefully:
  "(before_export env w0 = (Inr (v, X, m), w1) \<longrightarrow>
      files w1 ''sentiment_model.pkl'' = Some (Pickled_model m)
      \<and> files w1 ''sentiment_vectorizer.pkl'' = Some (Pickled_vectorizer v))
   \<and> (before_export env w0 = (Inr (v, X, m), w1)
        \<and> import_from env ''skl2onnx'' ''convert_sklearn'' = Some e
        \<and> isinstance_ImportError e \<longrightarrow>
      main env w0 = (Inr (), w1\<lparr>stdout := stdout w1 @ fallback_message\<rparr>))
   \<and> (before_export env w0 = (Inr (v, X, m), w1)
        \<and> export_body env m X w1 = (Inl e', w2)
        \<and> isinstance_ImportError e' \<longrightarrow>
      main env w0 = (Inr (), w2\<lparr>stdout := stdout w1 @ fallback_message\<rparr>)
      \<and> files w2 ''sentiment_model.pkl'' = Some (Pickled_model m)
      \<and> files w2 ''sentiment_vectorizer.pkl'' = Some (Pickled_vectorizer v))
   \<and> (before_export env w0 = (Inr (v, X, m), w1)
        \<and> export_body env m X w1 = (Inl e', w2)
        \<and> \<not> isinstance_ImportError e' \<longrightarrow>
      main env w0 = (Inl e', w2))
   \<and> (before_export env w0 = (Inr (v, X, m), w1)
        \<and> export_body env m X w1 = (Inr (), w2) \<longrightarrow>
      main env w0 = (Inr (), w2))
   \<and> (before_export env w0 = (Inl e'', w3) \<longrightarrow> main env w0 = (Inl e'', w3))"
proof (intro conjI impI)
  assume "before_export env w0 = (Inr (v, X, m), w1)"
  then show "files w1 ''sentiment_model.pkl'' = Some (Pickled_model m)"
    and "files w1 ''sentiment_vectorizer.pkl'' = Some (Pickled_vectorizer v)"
    by (simp_all add: before_export_files)
next
  assume a: "before_export env w0 = (Inr (v, X, m), w1)
    \<and> import_from env ''skl2onnx'' ''convert_sklearn'' = Some e
    \<and> isinstance_ImportError e"
  then have "export_body env m X w1 = (Inl e, w1)"
    by (simp add: export_body_import_fails)
  with a have "export_onnx env m X w1 = export_fallback w1"
    by (simp add: export_onnx_def try_except_ImportError_def)
  with a show "main env w0 = (Inr (), w1\<lparr>stdout := stdout w1 @ fallback_message\<rparr>)"
    by (simp add: main_after_before_export export_fallback_run)
next
  assume a: "before_export env w0 = (Inr (v, X, m), w1)
    \<and> export_body env m X w1 = (Inl e', w2) \<and> isinstance_ImportError e'"
  then have "export_onnx env m X w1 = export_fallback w2"
    by (simp add: export_onnx_def try_except_ImportError_def)
  moreover from a have out: "stdout w2 = stdout w1"
    using export_body_raises [of env m X w1 e' w2] by simp
  ultimately show "main env w0 = (Inr (), w2\<lparr>stdout := stdout w1 @ fallback_message\<rparr>)"
    using a by (simp add: main_after_before_export export_fallback_run)
  from a have "files w2 ''sentiment_model.pkl'' = files w1 ''sentiment_model.pkl''"
    and "files w2 ''sentiment_vectorizer.pkl'' = files w1 ''sentiment_vectorizer.pkl''"
    using export_body_raises [of env m X w1 e' w2] by simp_all
  moreover from a have "files w1 ''sentiment_model.pkl'' = Some (Pickled_model m)"
    and "files w1 ''sentiment_vectorizer.pkl'' = Some (Pickled_vectorizer v)"
    using before_export_files [of env w0 v X m w1] by simp_all
  ultimately show "files w2 ''sentiment_model.pkl'' = Some (Pickled_model m)"
    and "files w2 ''sentiment_vectorizer.pkl'' = Some (Pickled_vectorizer v)"
    by simp_all
next
  assume a: "before_export env w0 = (Inr (v, X, m), w1)
    \<and> export_body env m X w1 = (Inl e', w2) \<and> \<not> isinstance_ImportError e'"
  then have "export_onnx env m X w1 = (Inl e', w2)"
    by (simp add: export_onnx_def try_except_ImportError_def)
  with a show "main env w0 = (Inl e', w2)"
    by (simp add: main_after_before_export)
next
  assume a: "before_export env w0 = (Inr (v, X, m), w1)
    \<and> export_body env m X w1 = (Inr (), w2)"
  then have "export_onnx env m X w1 = (Inr (), w2)"
    by (simp add: export_onnx_def try_except_ImportError_def)
  with a show "main env w0 = (Inr (), w2)"
    by (simp add: main_after_before_export)
next
  assume "before_export env w0 = (Inl e'', w3)"
  then show "main env w0 = (Inl e'', w3)"
    by (rule main_raised_before_export)
qed

theorem export_degrades_gracefully_witness:
  "before_export (sample_runtime (Some ModuleNotFoundError) (Inr ()) None) initial_world
     = (Inr (drop 6 df_text, drop 6 df_text, ()),
        snd (before_export (sample_runtime (Some ModuleNotFoundError) (Inr ()) None)
          initial_world))
   \<and> isinstance_ImportError ModuleNotFoundError
   \<and> files (snd (before_export (sample_runtime (Some ModuleNotFoundError) (Inr ()) None)
        initial_world)) ''sentiment_model.pkl'' = Some (Pickled_model ())
   \<and> files (snd (before_export (sample_runtime (Some ModuleNotFoundError) (Inr ()) None)
        initial_world)) ''sentiment_vectorizer.pkl''
       = Some (Pickled_vectorizer (drop 6 df_text))
   \<and> fst (main (sample_runtime (Some ModuleNotFoundError) (Inr ()) None) initial_world)
       = Inr ()
   \<and> stdout (snd (main (sample_runtime (Some ModuleNotFoundError) (Inr ()) None)
        initial_world))
       = stdout (snd (before_export (sample_runtime (Some ModuleNotFoundError) (Inr ()) None)
           initial_world)) @ fallback_message
   \<and> isinstance_ImportError ImportError
   \<and> fst (main (sample_runtime None (Inl ImportError) None) initial_world) = Inr ()
   \<and> stdout (snd (main (sample_runtime None (Inl ImportError) None) initial_world))
       = stdout (snd (before_export (sample_runtime None (Inl ImportError) None)
           initial_world)) @ fallback_message
   \<and> files (snd (main (sample_runtime None (Inl ImportError) None) initial_world))
         ''sentiment_model.pkl'' = Some (Pickled_model ())
   \<and> fst (main (sample_runtime None (Inl RuntimeError) None) initial_world)
       = Inl RuntimeError
   \<and> fst (main (sample_runtime None (Inr ()) None) initial_world) = Inr ()
   \<and> files (snd (main (sample_runtime None (Inr ()) None) initial_world))
         ''sentiment_model.onnx'' = Some (Raw_bytes ''onnx'')
   \<and> fst (main (sample_runtime None (Inr ()) (Some OSError)) initial_world) = Inl OSError"
proof -
  let ?missing = "sample_runtime (Some ModuleNotFoundError) (Inr ()) None"
  let ?late = "sample_runtime None (Inl ImportError) None"
  let ?broken = "sample_runtime None (Inl RuntimeError) None"
  let ?ok = "sample_runtime None (Inr ()) None"
  let ?readonly = "sample_runtime None (Inr ()) (Some OSError)"
  let ?v = "drop 6 df_text"
  let ?w1 = "snd (before_export ?missing initial_world)"
  let ?wl = "snd (before_export ?late initial_world)"
  let ?w2 = "snd (before_export ?broken initial_world)"
  let ?wk = "snd (before_export ?ok initial_world)"
  let ?w3 = "snd (before_export ?readonly initial_world)"
  let ?wk' = "?wk\<lparr>files := (files ?wk)(''sentiment_model.onnx'' \<mapsto> Raw_bytes ''onnx''),
      stdout := stdout ?wk @ [''ONNX model saved to sentiment_model.onnx'',
        ''This model can be used with ML.NET TensorFlow integration'']\<rparr>"
  have b1: "before_export ?missing initial_world = (Inr (?v, ?v, ()), ?w1)"
    using sample_before_export [of "Some ModuleNotFoundError" "Inr ()"]
    by (simp add: prod_eq_iff)
  have bl: "before_export ?late initial_world = (Inr (?v, ?v, ()), ?wl)"
    using sample_before_export [of None "Inl ImportError"]
    by (simp add: prod_eq_iff)
  have b2: "before_export ?broken initial_world = (Inr (?v, ?v, ()), ?w2)"
    using sample_before_export [of None "Inl RuntimeError"]
    by (simp add: prod_eq_iff)
  have bk: "before_export ?ok initial_world = (Inr (?v, ?v, ()), ?wk)"
    using sample_before_export [of None "Inr ()"]
    by (simp add: prod_eq_iff)
  have "fst (before_export ?readonly initial_world) = Inl OSError"
    by (simp add: before_export_def fit_and_evaluate_def split_data_def
      extract_features_def train_model_def evaluate_def save_model_def dump_def
      vectorizer_fit_transform_def vectorizer_transform_def io_defs sample_defs)
  then have b3: "before_export ?readonly initial_world = (Inl OSError, ?w3)"
    by (simp add: prod_eq_iff)
  have i: "import_from ?missing ''skl2onnx'' ''convert_sklearn'' = Some ModuleNotFoundError"
    by (simp add: sample_runtime_def)
  have cl: "export_body ?late () ?v ?wl = (Inl ImportError, ?wl)"
    by (simp add: export_body_def io_bind_check io_bind_call sample_runtime_def)
  have c: "export_body ?broken () ?v ?w2 = (Inl RuntimeError, ?w2)"
    by (simp add: export_body_def io_bind_check io_bind_call sample_runtime_def)
  have ck: "export_body ?ok () ?v ?wk = (Inr (), ?wk')"
    by (simp add: export_body_def io_bind_check io_bind_call io_bind_store io_bind_print
        print_def sample_runtime_def)
  from export_degrades_gracefully [of ?missing initial_world ?v ?v "()" ?w1
      ModuleNotFoundError] b1 i
  have m1: "files ?w1 ''sentiment_model.pkl'' = Some (Pickled_model ())"
    "files ?w1 ''sentiment_vectorizer.pkl'' = Some (Pickled_vectorizer ?v)"
    "main ?missing initial_world = (Inr (), ?w1\<lparr>stdout := stdout ?w1 @ fallback_message\<rparr>)"
    by simp_all
  from export_degrades_gracefully [of ?late initial_world ?v ?v "()" ?wl _
      ImportError ?wl] bl cl
  have ml: "main ?late initial_world = (Inr (), ?wl\<lparr>stdout := stdout ?wl @ fallback_message\<rparr>)"
    "files ?wl ''sentiment_model.pkl'' = Some (Pickled_model ())"
    by simp_all
  from export_degrades_gracefully [of ?broken initial_world ?v ?v "()" ?w2 _
      RuntimeError ?w2] b2 c
  have m2: "main ?broken initial_world = (Inl RuntimeError, ?w2)"
    by simp
  from export_degrades_gracefully [of ?ok initial_world ?v ?v "()" ?wk _ _ ?wk'] bk ck
  have mk: "main ?ok initial_world = (Inr (), ?wk')"
    by simp
  from export_degrades_gracefully [of ?readonly initial_world _ _ _ _ _ _ _ OSError ?w3] b3
  have m3: "main ?readonly initial_world = (Inl OSError, ?w3)"
    by simp
  from b1 m1 ml m2 mk m3 show ?thesis by simp
qed

section \<open>The demo predictions\<close>

lemma predict_comment_report:
  assumes "predict_comment env v m c w = (Inr (), w')"
  shows "\<exists>printed. demo_report env v m c printed \<and> stdout w' = stdout w @ printed"
proof -
  from assms obtain features predictions prediction probabilities probability p where
    calls: "transform env v [c] = Inr features"
      "predict env m features = Inr predictions"
      "py_index predictions 0 = Inr prediction"
      "predict_proba env m features = Inr probabilities"
      "py_index probabilities 0 = Inr probability"
      "py_index probability prediction = Inr p"
    and out: "stdout w' = stdout w @
      [comment_line c,
       sentiment_line (if prediction = 1 then ''Positive'' else ''Negative'')
         (format_1f env (float_mul env p 100))]"
    unfolding predict_comment_def vectorizer_transform_def
    by (auto simp: io_bind_assoc io_bind_record_call io_bind_call io_bind_print print_def
        Let_def split: sum.splits)
  from calls have "demo_report env v m c
      [comment_line c,
       sentiment_line (if prediction = 1 then ''Positive'' else ''Negative'')
         (format_1f env (float_mul env p 100))]"
    unfolding demo_report_def by blast
  with out show ?thesis by blast
qed

lemma for_each_reports:
  assumes body: "\<And>x w w'. body x w = (Inr (), w') \<Longrightarrow>
      \<exists>printed. P x printed \<and> stdout w' = stdout w @ printed"
  shows "for_each body xs w = (Inr (), w') \<Longrightarrow>
      \<exists>reports. list_all2 P xs reports \<and> stdout w' = stdout w @ concat reports"
proof (induction xs arbitrary: w)
  case Nil
  then show ?case by (simp add: io_return_def)
next
  case (Cons x xs)
  from Cons.prems obtain w1 where
    1: "body x w = (Inr (), w1)" and 2: "for_each body xs w1 = (Inr (), w')"
    by (auto elim: io_bind_cases)
  from body [OF 1] obtain printed where
    p: "P x printed" "stdout w1 = stdout w @ printed" by blast
  from Cons.IH [OF 2] obtain reports where
    r: "list_all2 P xs reports" "stdout w' = stdout w1 @ concat reports" by blast
  from p r have "list_all2 P (x # xs) (printed # reports)
      \<and> stdout w' = stdout w @ concat (printed # reports)"
    by simp
  then show ?case by blast
qed

text \<open>
  Claim C8, as amended. A run of the loop that completes has printed the heading and
  then, for each of the four comments in order, two strings: the comment between single
  quotes after \<^verbatim>\<open>Comment: \<close>, and the label after \<^verbatim>\<open>  Sentiment: \<close> followed by
  \<^verbatim>\<open> (Confidence: \<close>, the confidence with one decimal, \<^verbatim>\<open>%)\<close> and a newline. The
  label is \<^verbatim>\<open>Positive\<close> when the first predicted label of the transformed comment is 1
  and \<^verbatim>\<open>Negative\<close> otherwise; the confidence is the entry of the first probability
  row at the index of the predicted label, times 100.
\<close>

theorem test_predictions_output:
  assumes "test_predictions env vectorizer model w = (Inr (), w')"
  shows "\<exists>reports.
      list_all2 (demo_report env vectorizer model) test_comments reports
      \<and> stdout w' = stdout w @ ''\<newline>--- Test Predictions ---'' # concat reports"
proof -
  let ?w1 = "w\<lparr>stdout := stdout w @ [''\<newline>--- Test Predictions ---'']\<rparr>"
  from assms have "for_each (predict_comment env vectorizer model) test_comments ?w1
      = (Inr (), w')"
    by (simp add: test_predictions_def io_bind_print)
  from for_each_reports [where P = "demo_report env vectorizer model", OF _ this]
    predict_comment_report [of env vectorizer model]
  show ?thesis by fastforce
qed

lemma sample_test_predictions:
  "test_predictions (sample_runtime None (Inr ()) None) [] () initial_world =
     (Inr (),
      \<lparr>stdout =
         [''\<newline>--- Test Predictions ---'',
          comment_line ''This is great!'',
          ''  Sentiment: Positive (Confidence: 75.0%)\<newline>'',
          comment_line ''This is terrible!'',
          ''  Sentiment: Positive (Confidence: 75.0%)\<newline>'',
          comment_line ''Amazing tutorial, thanks!'',
          ''  Sentiment: Negative (Confidence: 75.0%)\<newline>'',
          comment_line ''Waste of time, very bad'',
          ''  Sentiment: Negative (Confidence: 75.0%)\<newline>''],
       files = Map.empty,
       vectorizer_calls = map (\<lambda>c. Transform [] [c]) test_comments\<rparr>)"
  by (simp add: test_predictions_def predict_comment_def vectorizer_transform_def
      io_defs sample_defs)

theorem test_predictions_output_witness:
  "test_predictions (sample_runtime None (Inr ()) None) [] () initial_world
     = (Inr (), snd (test_predictions (sample_runtime None (Inr ()) None) [] () initial_world))
   \<and> (\<exists>reports.
        list_all2 (demo_report (sample_runtime None (Inr ()) None) [] ()) test_comments reports
        \<and> stdout (snd (test_predictions (sample_runtime None (Inr ()) None) [] ()
              initial_world))
            = ''\<newline>--- Test Predictions ---'' # concat reports)"
proof -
  have run: "test_predictions (sample_runtime None (Inr ()) None) [] () initial_world
     = (Inr (), snd (test_predictions (sample_runtime None (Inr ()) None) [] () initial_world))"
    by (simp add: sample_test_predictions)
  from test_predictions_output [OF run]
  have "\<exists>reports.
        list_all2 (demo_report (sample_runtime None (Inr ()) None) [] ()) test_comments reports
        \<and> stdout (snd (test_predictions (sample_runtime None (Inr ()) None) [] ()
              initial_world))
            = ''\<newline>--- Test Predictions ---'' # concat reports"
    by (simp add: initial_world_def)
  with run show ?thesis by (rule conjI)
qed

text \<open>
  Claim C8 as the specification words it fails on the text of the line: on the sample
  runtime the line for the first comment reads \<^verbatim>\<open>  Sentiment: Positive (Confidence: 75.0%)\<close>
  with a newline after it, the line \<^verbatim>\<open>Positive (confidence 75.0%)\<close> is not printed, and
  \<^verbatim>\<open>(confidence\<close> occurs nowhere in the output.
\<close>

theorem demo_line_format_counterexample:
  "stdout (snd (test_predictions (sample_runtime None (Inr ()) None) [] ()
       (initial_world :: (unit, string list) world))) ! 2
     = ''  Sentiment: Positive (Confidence: 75.0%)\<newline>''
   \<and> spec_demo_line ''Positive'' ''75.0''
       \<notin> set (stdout (snd (test_predictions (sample_runtime None (Inr ()) None) [] ()
           (initial_world :: (unit, string list) world))))
   \<and> \<not> sublist ''(confidence''
       (concat (stdout (snd (test_predictions (sample_runtime None (Inr ()) None) [] ()
           (initial_world :: (unit, string list) world)))))"
proof -
  have out: "stdout (snd (test_predictions (sample_runtime None (Inr ()) None) [] ()
       (initial_world :: (unit, string list) world))) =
         [''\<newline>--- Test Predictions ---'',
          comment_line ''This is great!'',
          ''  Sentiment: Positive (Confidence: 75.0%)\<newline>'',
          comment_line ''This is terrible!'',
          ''  Sentiment: Positive (Confidence: 75.0%)\<newline>'',
          comment_line ''Amazing tutorial, thanks!'',
          ''  Sentiment: Negative (Confidence: 75.0%)\<newline>'',
          comment_line ''Waste of time, very bad'',
          ''  Sentiment: Negative (Confidence: 75.0%)\<newline>'']"
    by (simp add: sample_test_predictions)
  show ?thesis
    unfolding out
    by (simp add: spec_demo_line_def comment_line_def sublist_Cons_right)
qed

section \<open>The calls on the vectorizer\<close>

lemma split_data_result:
  assumes "train_test_split env df_text df_label (2 / 10) 42
      = Inr (X_train, X_test, y_train, y_test)"
    and "split_data env w = (r, w')"
  shows "r = Inr (X_train, X_test, y_train, y_test)
      \<and> vectorizer_calls w' = vectorizer_calls w"
  using assms unfolding split_data_def
  by (auto simp: io_bind_call io_bind_print io_return_def)

lemma extract_features_calls:
  assumes "TfidfVectorizer env tfidf_params = Inr v0"
    and "fit_transform env v0 X_train = Inr (v, X)"
    and "extract_features env X_train X_test w = (r, w')"
  shows "vectorizer_calls w' =
      vectorizer_calls w @ [Fit_transform v0 X_train, Transform v X_test]
    \<and> (\<forall>vv a b. r = Inr (vv, a, b) \<longrightarrow> vv = v)"
  using assms
  unfolding extract_features_def vectorizer_fit_transform_def vectorizer_transform_def
  by (auto simp: io_bind_assoc io_bind_call io_bind_record_call io_bind_print io_return_def
      split: sum.splits)

lemma train_evaluate_calls:
  assumes "io_bind (train_model env Xa y_train) (\<lambda>model.
      io_bind (evaluate env model Xb y_test) (\<lambda>_. io_return (v, Xa, model))) w = (r, w')"
  shows "vectorizer_calls w' = vectorizer_calls w
    \<and> (\<forall>vv XX mm. r = Inr (vv, XX, mm) \<longrightarrow> vv = v)"
proof
  have "keeps vectorizer_calls (io_bind (train_model env Xa y_train) (\<lambda>model.
      io_bind (evaluate env model Xb y_test) (\<lambda>_. io_return (v, Xa, model))))"
    unfolding train_model_def evaluate_def by (intro keeps_intros)
  from keepsD [OF this assms] show "vectorizer_calls w' = vectorizer_calls w" .
  from assms show "\<forall>vv XX mm. r = Inr (vv, XX, mm) \<longrightarrow> vv = v"
    by (auto elim!: io_bind_cases simp: io_return_def)
qed

lemma fit_and_evaluate_calls:
  assumes split: "train_test_split env df_text df_label (2 / 10) 42
      = Inr (X_train, X_test, y_train, y_test)"
    and ctor: "TfidfVectorizer env tfidf_params = Inr v0"
    and fit: "fit_transform env v0 X_train = Inr (v, X)"
    and run: "fit_and_evaluate env w = (r, w')"
  shows "vectorizer_calls w' =
      vectorizer_calls w @ [Fit_transform v0 X_train, Transform v X_test]
    \<and> (\<forall>vv XX mm. r = Inr (vv, XX, mm) \<longrightarrow> vv = v)"
  using run unfolding fit_and_evaluate_def
proof (cases rule: io_bind_cases)
  case (raised e)
  with split_data_result [OF split] show ?thesis by blast
next
  case (returned t w1)
  with split_data_result [OF split] have
    t: "t = (X_train, X_test, y_train, y_test)" and
    w1: "vectorizer_calls w1 = vectorizer_calls w"
    by blast+
  from returned(2) have "io_bind (extract_features env X_train X_test)
      (\<lambda>(vectorizer, X_train_tfidf, X_test_tfidf).
        io_bind (train_model env X_train_tfidf y_train) (\<lambda>model.
        io_bind (evaluate env model X_test_tfidf y_test) (\<lambda>_.
        io_return (vectorizer, X_train_tfidf, model)))) w1 = (r, w')"
    by (simp add: t)
  then show ?thesis
  proof (cases rule: io_bind_cases)
    case (raised e)
    with extract_features_calls [OF ctor fit] w1 show ?thesis by fastforce
  next
    case (returned u w2)
    obtain vv Xa Xb where u: "u = (vv, Xa, Xb)" by (cases u) auto
    from extract_features_calls [OF ctor fit returned(1)] u have
      w2: "vectorizer_calls w2 =
        vectorizer_calls w1 @ [Fit_transform v0 X_train, Transform v X_test]"
      and vv: "vv = v"
      by simp_all
    from returned(2) u vv have "io_bind (train_model env Xa y_train) (\<lambda>model.
      io_bind (evaluate env model Xb y_test) (\<lambda>_. io_return (v, Xa, model))) w2 = (r, w')"
      by simp
    from train_evaluate_calls [OF this] w2 w1 show ?thesis by simp
  qed
qed

lemma record_call_then_keeps:
  assumes "\<And>u. keeps vectorizer_calls (f u)"
  shows "vectorizer_calls (snd (io_bind (record_call c) f w)) = vectorizer_calls w @ [c]"
  using assms by (simp add: io_bind_record_call keeps_def)

lemma predict_comment_calls:
  "vectorizer_calls (snd (predict_comment env v m c w))
     = vectorizer_calls w @ [Transform v [c]]"
  unfolding predict_comment_def vectorizer_transform_def io_bind_assoc
  by (rule record_call_then_keeps) (intro keeps_intros)

lemma for_each_calls:
  assumes body: "\<And>x w. vectorizer_calls (snd (body x w)) = vectorizer_calls w @ [h x]"
  shows "for_each body xs w = (r, w') \<Longrightarrow>
    \<exists>k\<le>length xs. vectorizer_calls w' = vectorizer_calls w @ map h (take k xs)
      \<and> (r = Inr () \<longrightarrow> k = length xs)"
proof (induction xs arbitrary: w)
  case Nil
  then show ?case by (simp add: io_return_def)
next
  case (Cons x xs)
  from Cons.prems have "io_bind (body x) (\<lambda>_. for_each body xs) w = (r, w')" by simp
  then show ?case
  proof (cases rule: io_bind_cases)
    case (raised e)
    with body [of x w] have "vectorizer_calls w' = vectorizer_calls w @ map h (take 1 (x # xs))"
      by simp
    with raised(2) show ?thesis
      by (intro exI [of _ 1]) simp
  next
    case (returned u w1)
    with body [of x w] have w1: "vectorizer_calls w1 = vectorizer_calls w @ [h x]" by simp
    from Cons.IH [OF returned(2)] obtain k where
      k: "k \<le> length xs" "vectorizer_calls w' = vectorizer_calls w1 @ map h (take k xs)"
        "r = Inr () \<longrightarrow> k = length xs"
      by blast
    with w1 show ?thesis
      by (intro exI [of _ "Suc k"]) simp
  qed
qed

lemma test_predictions_calls:
  assumes "test_predictions env v m w = (r, w')"
  shows "\<exists>k\<le>length test_comments.
    vectorizer_calls w' =
      vectorizer_calls w @ map (\<lambda>comment. Transform v [comment]) (take k test_comments)
    \<and> (r = Inr () \<longrightarrow> k = length test_comments)"
proof -
  let ?w1 = "w\<lparr>stdout := stdout w @ [''\<newline>--- Test Predictions ---'']\<rparr>"
  from assms have "for_each (predict_comment env v m) test_comments ?w1 = (r, w')"
    by (simp add: test_predictions_def io_bind_print)
  from for_each_calls [where h = "\<lambda>comment. Transform v [comment]", OF _ this]
    predict_comment_calls [of env v m]
  show ?thesis by simp
qed

lemma save_model_calls: "keeps vectorizer_calls (save_model env m v)"
  unfolding save_model_def dump_def by (intro keeps_intros)

lemma export_onnx_calls: "keeps vectorizer_calls (export_onnx env m X)"
  unfolding export_onnx_def export_body_def export_fallback_def by (intro keeps_intros)

lemma before_export_calls:
  assumes split: "train_test_split env df_text df_label (2 / 10) 42
      = Inr (X_train, X_test, y_train, y_test)"
    and ctor: "TfidfVectorizer env tfidf_params = Inr v0"
    and fit: "fit_transform env v0 X_train = Inr (v, X)"
    and run: "before_export env w = (r, w')"
  shows "\<exists>k\<le>length test_comments.
    vectorizer_calls w' = vectorizer_calls w @ expected_calls v0 v X_train X_test k
    \<and> (\<forall>res. r = Inr res \<longrightarrow> k = length test_comments)"
  using run unfolding before_export_def
proof (cases rule: io_bind_cases)
  case (raised e)
  with fit_and_evaluate_calls [OF split ctor fit] have
    "vectorizer_calls w' = vectorizer_calls w @ expected_calls v0 v X_train X_test 0"
    by (simp add: expected_calls_def)
  with raised(2) show ?thesis by (intro exI [of _ 0]) simp
next
  case (returned t wa)
  obtain vv XX mm where t: "t = (vv, XX, mm)" by (cases t) auto
  from fit_and_evaluate_calls [OF split ctor fit returned(1)] t have
    wa: "vectorizer_calls wa =
      vectorizer_calls w @ [Fit_transform v0 X_train, Transform v X_test]"
    and vv: "vv = v"
    by simp_all
  from returned(2) t vv have "io_bind (save_model env mm v) (\<lambda>_.
     io_bind (test_predictions env v mm) (\<lambda>_. io_return (v, XX, mm))) wa = (r, w')"
    by simp
  then show ?thesis
  proof (cases rule: io_bind_cases)
    case (raised e)
    from keepsD [OF save_model_calls raised(1)] wa have
      "vectorizer_calls w' = vectorizer_calls w @ expected_calls v0 v X_train X_test 0"
      by (simp add: expected_calls_def)
    with raised(2) show ?thesis by (intro exI [of _ 0]) simp
  next
    case (returned u wb)
    from keepsD [OF save_model_calls returned(1)] wa have
      wb: "vectorizer_calls wb =
        vectorizer_calls w @ [Fit_transform v0 X_train, Transform v X_test]"
      by simp
    from returned(2) show ?thesis
    proof (cases rule: io_bind_cases)
      case (raised e)
      from test_predictions_calls [OF raised(1)] obtain k where
        "k \<le> length test_comments"
        "vectorizer_calls w' =
          vectorizer_calls wb @ map (\<lambda>comment. Transform v [comment]) (take k test_comments)"
        by blast
      with wb raised(2) show ?thesis
        by (intro exI [of _ k]) (simp add: expected_calls_def)
    next
      case (returned u' wc)
      then have u': "test_predictions env v mm wb = (Inr (), wc)" and w': "w' = wc"
        by (simp_all add: io_return_def)
      from test_predictions_calls [OF u'] obtain k where
        "k \<le> length test_comments"
        "vectorizer_calls wc =
          vectorizer_calls wb @ map (\<lambda>comment. Transform v [comment]) (take k test_comments)"
        "k = length test_comments"
        by blast
      with wb w' show ?thesis
        by (intro exI [of _ k]) (simp add: expected_calls_def)
    qed
  qed
qed

text \<open>
  Claim C7. In a run where the split, the construction of the vectorizer and
  \<^verbatim>\<open>fit_transform\<close> return, the calls on the vectorizer are an initial part of this
  sequence, and all of it when the run completes: one \<^verbatim>\<open>fit_transform\<close>, on the
  training texts of the split, then \<^verbatim>\<open>transform\<close> only, each time on the object
  as the fit left it: on the test texts, then on each demo comment in turn. No other
  call is made, so the object is never fitted on the test texts or on a demo comment.
\<close>

theorem vectorizer_fitted_once_on_training_texts:
  assumes split: "train_test_split env df_text df_label (2 / 10) 42
      = Inr (X_train, X_test, y_train, y_test)"
    and ctor: "TfidfVectorizer env tfidf_params = Inr v0"
    and fit: "fit_transform env v0 X_train = Inr (v, X)"
    and run: "main env w0 = (r, w)"
  shows "\<exists>k\<le>length test_comments.
    vectorizer_calls w = vectorizer_calls w0 @ expected_calls v0 v X_train X_test k
    \<and> (r = Inr () \<longrightarrow> k = length test_comments)"
  using run unfolding main_def
proof (cases rule: io_bind_cases)
  case (raised e)
  with before_export_calls [OF split ctor fit raised(1)] show ?thesis by auto
next
  case (returned t w1)
  obtain vv XX mm where t: "t = (vv, XX, mm)" by (cases t) auto
  from before_export_calls [OF split ctor fit returned(1)] obtain k where
    k: "k \<le> length test_comments"
      "vectorizer_calls w1 = vectorizer_calls w0 @ expected_calls v0 v X_train X_test k"
      "k = length test_comments"
    by blast
  from returned(2) t have "export_onnx env mm XX w1 = (r, w)" by simp
  from keepsD [OF export_onnx_calls this] k show ?thesis
    by (intro exI [of _ k]) simp
qed

lemma sample_main_returns:
  "fst (main (sample_runtime (Some ModuleNotFoundError) convert_outcome None) initial_world)
     = Inr ()"
proof -
  let ?env = "sample_runtime (Some ModuleNotFoundError) convert_outcome None"
  let ?w1 = "snd (before_export ?env initial_world)"
  have "before_export ?env initial_world = (Inr (drop 6 df_text, drop 6 df_text, ()), ?w1)"
    using sample_before_export [of "Some ModuleNotFoundError" convert_outcome]
    by (simp add: prod_eq_iff)
  then have "main ?env initial_world = export_onnx ?env () (drop 6 df_text) ?w1"
    by (rule main_after_before_export)
  moreover have "export_body ?env () (drop 6 df_text) ?w1 = (Inl ModuleNotFoundError, ?w1)"
    by (simp add: export_body_import_fails sample_runtime_def)
  ultimately show ?thesis
    by (simp add: export_onnx_def try_except_ImportError_def export_fallback_run)
qed

theorem vectorizer_fitted_once_on_training_texts_witness:
  "train_test_split (sample_runtime (Some ModuleNotFoundError) (Inr ()) None)
       df_text df_label (2 / 10) 42
     = Inr (drop 6 df_text, take 6 df_text, drop 6 df_label, take 6 df_label)
   \<and> TfidfVectorizer (sample_runtime (Some ModuleNotFoundError) (Inr ()) None) tfidf_params
     = Inr []
   \<and> fit_transform (sample_runtime (Some ModuleNotFoundError) (Inr ()) None) []
       (drop 6 df_text)
     = Inr (drop 6 df_text, drop 6 df_text)
   \<and> fst (main (sample_runtime (Some ModuleNotFoundError) (Inr ()) None) initial_world)
     = Inr ()
   \<and> vectorizer_calls
       (snd (main (sample_runtime (Some ModuleNotFoundError) (Inr ()) None) initial_world))
     = expected_calls [] (drop 6 df_text) (drop 6 df_text) (take 6 df_text) 4"
proof -
  let ?env = "sample_runtime (Some ModuleNotFoundError) (Inr ()) None"
  have split: "train_test_split ?env df_text df_label (2 / 10) 42
      = Inr (drop 6 df_text, take 6 df_text, drop 6 df_label, take 6 df_label)"
    and ctor: "TfidfVectorizer ?env tfidf_params = Inr []"
    and fit: "fit_transform ?env [] (drop 6 df_text) = Inr (drop 6 df_text, drop 6 df_text)"
    by (simp_all add: sample_runtime_def)
  have ret: "fst (main ?env initial_world) = Inr ()"
    by (rule sample_main_returns)
  then have run: "main ?env initial_world = (Inr (), snd (main ?env initial_world))"
    by (simp add: prod_eq_iff)
  have four: "length test_comments = 4"
    by (simp add: test_comments_def)
  from vectorizer_fitted_once_on_training_texts [OF split ctor fit run] four
  have "vectorizer_calls (snd (main ?env initial_world))
      = expected_calls [] (drop 6 df_text) (drop 6 df_text) (take 6 df_text) 4"
    by (auto simp: initial_world_def)
  with split ctor fit ret show ?thesis by simp
qed

section \<open>Accuracy and confusion matrix\<close>

lemma correct_is_diagonal:
  assumes "\<forall>z \<in> set zs. fst z = 0 \<or> fst z = (1::int)"
  shows "length (filter (\<lambda>(t, p). t = p) zs) =
    length (filter (\<lambda>(a, b). a = 0 \<and> b = (0::int)) zs)
    + length (filter (\<lambda>(a, b). a = 1 \<and> b = 1) zs)"
  using assms
proof (induction zs)
  case Nil
  show ?case by simp
next
  case (Cons z zs)
  obtain t p where z: "z = (t, p)" by (cases z)
  from Cons.prems z have t: "t = 0 \<or> t = 1" by simp
  from Cons.prems have "\<forall>z \<in> set zs. fst z = 0 \<or> fst z = 1" by simp
  then have IH: "length (filter (\<lambda>(t, p). t = p) zs) =
    length (filter (\<lambda>(a, b). a = 0 \<and> b = (0::int)) zs)
    + length (filter (\<lambda>(a, b). a = 1 \<and> b = 1) zs)"
    by (rule Cons.IH)
  from t show ?case
  proof
    assume "t = 0"
    with z IH show ?thesis by (cases "p = 0") simp_all
  next
    assume "t = 1"
    with z IH show ?thesis by (cases "p = 1") simp_all
  qed
qed

text \<open>
  Claim C5. For true labels and predictions of the same, non-zero length, with every
  true label 0 or 1, the accuracy is the sum of the two diagonal cells of the confusion
  matrix of the same labels and predictions, divided by the number of examples.
\<close>

theorem accuracy_from_confusion_matrix:
  assumes "length y_true = length y_pred" and "y_true \<noteq> []" and "set y_true \<subseteq> {0, 1}"
  shows "spec_accuracy_score y_true y_pred =
    of_nat (spec_confusion_matrix y_true y_pred ! 0 ! 0
            + spec_confusion_matrix y_true y_pred ! 1 ! 1)
      / of_nat (length y_true)"
proof -
  have "\<forall>z \<in> set (zip y_true y_pred). fst z = 0 \<or> fst z = 1"
  proof
    fix z assume "z \<in> set (zip y_true y_pred)"
    then have "fst z \<in> set y_true"
      by (metis prod.collapse set_zip_leftD)
    with assms(3) show "fst z = 0 \<or> fst z = 1" by auto
  qed
  from correct_is_diagonal [OF this] show ?thesis
    by (simp add: spec_accuracy_score_def spec_confusion_matrix_def confusion_count_def)
qed

theorem accuracy_from_confusion_matrix_witness:
  "length [1, 0, 1, 1, 0, 0 :: int] = length [1, 0, 0, 1, 1, 0 :: int]
   \<and> [1, 0, 1, 1, 0, 0 :: int] \<noteq> []
   \<and> set [1, 0, 1, 1, 0, 0 :: int] \<subseteq> {0, 1}
   \<and> spec_confusion_matrix [1, 0, 1, 1, 0, 0] [1, 0, 0, 1, 1, 0] = [[2, 1], [1, 2]]
   \<and> spec_accuracy_score [1, 0, 1, 1, 0, 0] [1, 0, 0, 1, 1, 0] = 4 / 6"
proof -
  have cm: "spec_confusion_matrix [1, 0, 1, 1, 0, 0] [1, 0, 0, 1, 1, 0] = [[2, 1], [1, 2]]"
    by (simp add: spec_confusion_matrix_def confusion_count_def)
  from accuracy_from_confusion_matrix [of "[1, 0, 1, 1, 0, 0]" "[1, 0, 0, 1, 1, 0]"] cm
  show ?thesis by simp
qed

section \<open>The split\<close>

lemma distinct_df_text: "distinct df_text"
  by (simp add: df_text_def training_data_def)

lemma length_training_data: "length training_data = 30"
  by (simp add: training_data_def)

lemma nth_image_all: "nth xs ` {..<length xs} = set xs"
  using nth_image [of "length xs" xs] by (simp add: atLeast0LessThan)

lemma rows_cover:
  assumes "set order = {..<length xs}"
  shows "set (map (nth xs) (drop k order) @ map (nth xs) (take k order)) = set xs"
proof -
  have "set (drop k order) \<union> set (take k order) = set order"
    using set_append [of "take k order" "drop k order"] by auto
  then have "nth xs ` set (drop k order) \<union> nth xs ` set (take k order) = nth xs ` set order"
    by (metis image_Un)
  with assms show ?thesis by (simp add: nth_image_all)
qed

lemma rows_distinct:
  assumes "distinct order" and "set order = {..<length xs}" and "distinct xs"
  shows "distinct (map (nth xs) (drop k order) @ map (nth xs) (take k order))"
proof -
  have inj: "inj_on (nth xs) (set order)"
    using assms(2,3) by (simp add: inj_on_nth)
  have "distinct (drop k order @ take k order)"
    using assms(1) set_take_disj_set_drop_if_distinct [of order k k]
    by (auto simp: distinct_append)
  moreover have "set (drop k order @ take k order) = set order"
    using set_append [of "take k order" "drop k order"] by auto
  ultimately have "distinct (map (nth xs) (drop k order @ take k order))"
    using inj by (simp only: distinct_map)
  then show ?thesis by simp
qed

lemma zip_rows:
  assumes "set rows \<subseteq> {..<length ps}"
  shows "zip (map (nth (map fst ps)) rows) (map (nth (map snd ps)) rows) = map (nth ps) rows"
  using assms by (induction rows) simp_all

text \<open>
  Claim C9. Whatever order of the thirty row numbers the seed gives, the split of the
  data with test proportion 0.2 has 6 test examples and 24 training examples; no text is
  in both parts, every text of the data is in one of them, once, and every example of
  the parts is an example of the data with its own label.
\<close>

theorem split_sizes_and_partition:
  assumes "distinct order" and "set order = {..<length training_data}"
  shows "case spec_train_test_split order df_text df_label (2 / 10) of
     (X_train, X_test, y_train, y_test) \<Rightarrow>
       length X_test = 6 \<and> length X_train = 24
       \<and> length y_test = 6 \<and> length y_train = 24
       \<and> set X_train \<inter> set X_test = {}
       \<and> distinct (X_train @ X_test)
       \<and> set (X_train @ X_test) = set df_text
       \<and> set (zip X_train y_train @ zip X_test y_test) = set training_data"
proof -
  have len: "length order = 30"
    using distinct_card [OF assms(1)] assms(2) by (simp add: length_training_data)
  have k: "spec_n_test (length df_text) (2 / 10) = 6"
    by (simp add: spec_n_test_def df_text_def length_training_data)
  have ord: "set order = {..<length df_text}"
    using assms(2) by (simp add: df_text_def)
  have d: "distinct (map (nth df_text) (drop 6 order) @ map (nth df_text) (take 6 order))"
    by (rule rows_distinct [OF assms(1) ord distinct_df_text])
  have c: "set (map (nth df_text) (drop 6 order) @ map (nth df_text) (take 6 order))
      = set df_text"
    by (rule rows_cover [OF ord])
  have sub: "set (drop 6 order) \<subseteq> {..<length training_data}"
    "set (take 6 order) \<subseteq> {..<length training_data}"
    using assms(2) set_drop_subset [of 6 order] set_take_subset [of 6 order] by auto
  have z: "set (zip (map (nth df_text) (drop 6 order)) (map (nth df_label) (drop 6 order))
        @ zip (map (nth df_text) (take 6 order)) (map (nth df_label) (take 6 order)))
      = set training_data"
    using rows_cover [OF assms(2), of 6]
    by (simp add: df_text_def df_label_def zip_rows [OF sub(1)] zip_rows [OF sub(2)])
  from d have disj: "set (map (nth df_text) (drop 6 order))
      \<inter> set (map (nth df_text) (take 6 order)) = {}"
    by (simp only: distinct_append)
  from len k d c z disj show ?thesis
    by (simp add: spec_train_test_split_def Let_def)
qed

lemma sample_order_perm:
  "distinct sample_order \<and> set sample_order = {..<length training_data}"
  by (auto simp: sample_order_def length_training_data lessThan_nat_numeral)

theorem split_sizes_and_partition_witness:
  "distinct sample_order \<and> set sample_order = {..<length training_data}
   \<and> (case spec_train_test_split sample_order df_text df_label (2 / 10) of
       (X_train, X_test, y_train, y_test) \<Rightarrow>
         length X_test = 6 \<and> length X_train = 24
         \<and> length y_test = 6 \<and> length y_train = 24
         \<and> set X_train \<inter> set X_test = {}
         \<and> distinct (X_train @ X_test)
         \<and> set (X_train @ X_test) = set df_text
         \<and> set (zip X_train y_train @ zip X_test y_test) = set training_data)
   \<and> fst (snd (spec_train_test_split sample_order df_text df_label (2 / 10)))
       = [''Not worth watching at all'', ''This is terrible, waste of time'',
          ''Disappointed with this video'', ''Not helpful at all'',
          ''Perfect! Exactly what I needed'', ''Outstanding video, loved it'']"
proof -
  have p: "distinct sample_order" "set sample_order = {..<length training_data}"
    using sample_order_perm by simp_all
  have t: "fst (snd (spec_train_test_split sample_order df_text df_label (2 / 10)))
       = [''Not worth watching at all'', ''This is terrible, waste of time'',
          ''Disappointed with this video'', ''Not helpful at all'',
          ''Perfect! Exactly what I needed'', ''Outstanding video, loved it'']"
    by (simp add: spec_train_test_split_def spec_n_test_def sample_order_def df_text_def
        training_data_def)
  from split_sizes_and_partition [OF p] p t show ?thesis by blast
qed

end
